theory Spec2Isabelle
  imports Main "HOL-Library.AList"
begin

section \<open>Exit-ticket portal: authoring workflow and flag aggregation (app.py)\<close>

subsection \<open>Python values\<close>

text \<open>
  The dictionaries of app.py are association lists in insertion order. A question is a
  dictionary from field names to values; a value is a string or (for \<open>options\<close>) a
  dictionary from option letters to texts.
\<close>

datatype pyval = Str string | Dict "(string \<times> string) list"

type_synonym question = "(string \<times> pyval) list"

datatype py_error = ValueError | IndexError | KeyError | AttributeError | TypeError

text \<open>\<open>d.get(k, default)\<close>.\<close>

definition dict_get :: "('k \<times> 'v) list \<Rightarrow> 'k \<Rightarrow> 'v \<Rightarrow> 'v" where
  "dict_get d k dflt = (case map_of d k of None \<Rightarrow> dflt | Some v \<Rightarrow> v)"

subsection \<open>The builtins \<open>str.strip\<close>, \<open>int\<close> and \<open>str\<close>\<close>

text \<open>
  A character is a code point below 256; a string with any other character is outside
  the model. \<open>s.strip()\<close> removes at both ends the characters that \<open>str.isspace\<close>
  accepts: 9 to 13, 28 to 32, 133 and 160.
\<close>

definition is_space :: "char \<Rightarrow> bool" where
  "is_space c =
     (let n = (of_char c :: nat)
      in (9 \<le> n \<and> n \<le> 13) \<or> (28 \<le> n \<and> n \<le> 32) \<or> n = 133 \<or> n = 160)"

definition strip :: "string \<Rightarrow> string" where
  "strip s = rev (dropWhile is_space (rev (dropWhile is_space s)))"

text \<open>
  A key of a \<open>flags\<close> or \<open>responses\<close> dictionary is a string or an integer.
  \<open>int(k)\<close> returns an integer key as it is. On a string it skips white space at both
  ends, which for \<open>int\<close> is 9 to 13, 32, 133 and 160 (not 28 to 31), reads an optional
  sign and then decimal digits \<open>0\<close> to \<open>9\<close>, where single underscores may stand between
  digits; anything else raises ValueError, and so do more than 4300 digits (the default
  of \<open>sys.set_int_max_str_digits\<close>; leading zeros count, underscores do not).
\<close>

datatype key = StrKey string | IntKey int

definition is_int_space :: "char \<Rightarrow> bool" where
  "is_int_space c =
     (let n = (of_char c :: nat) in (9 \<le> n \<and> n \<le> 13) \<or> n = 32 \<or> n = 133 \<or> n = 160)"

definition int_strip :: "string \<Rightarrow> string" where
  "int_strip s = rev (dropWhile is_int_space (rev (dropWhile is_int_space s)))"

definition is_digit :: "char \<Rightarrow> bool" where
  "is_digit c = (let n = (of_char c :: nat) in 48 \<le> n \<and> n \<le> 57)"

definition digit_val :: "char \<Rightarrow> nat" where
  "digit_val c = of_char c - 48"

definition int_max_str_digits :: nat where
  "int_max_str_digits = 4300"

text \<open>
  \<open>parse_digits acc prev cs\<close> reads the digits \<open>cs\<close>; \<open>prev\<close> tells whether the
  character before was a digit (an underscore is legal only between two digits).
\<close>

fun parse_digits :: "nat \<Rightarrow> bool \<Rightarrow> string \<Rightarrow> nat option" where
  "parse_digits acc prev [] = (if prev then Some acc else None)"
| "parse_digits acc prev (c # cs) =
     (if is_digit c then parse_digits (acc * 10 + digit_val c) True cs
      else if c = CHR ''_'' \<and> prev then parse_digits acc False cs
      else None)"

text \<open>The digits after the sign, with the limit on their number.\<close>

definition read_digits :: "string \<Rightarrow> nat option" where
  "read_digits cs =
     (if int_max_str_digits < length (filter is_digit cs) then None
      else parse_digits 0 False cs)"

definition int_of_string :: "string \<Rightarrow> py_error + int" where
  "int_of_string s =
     (case int_strip s of
        [] \<Rightarrow> Inl ValueError
      | c # cs \<Rightarrow>
          if c = CHR ''-'' then
            (case read_digits cs of None \<Rightarrow> Inl ValueError | Some n \<Rightarrow> Inr (- int n))
          else if c = CHR ''+'' then
            (case read_digits cs of None \<Rightarrow> Inl ValueError | Some n \<Rightarrow> Inr (int n))
          else
            (case read_digits (c # cs) of None \<Rightarrow> Inl ValueError | Some n \<Rightarrow> Inr (int n)))"

fun py_int :: "key \<Rightarrow> py_error + int" where
  "py_int (IntKey n) = Inr n"
| "py_int (StrKey s) = int_of_string s"

text \<open>\<open>str(n)\<close> of an integer: its decimal digits, with a minus sign when negative.\<close>

fun str_nat :: "nat \<Rightarrow> string" where
  "str_nat n =
     (if n < 10 then [''0123456789'' ! n] else str_nat (n div 10) @ [''0123456789'' ! (n mod 10)])"

definition py_str :: "int \<Rightarrow> string" where
  "py_str n = (if n < 0 then CHR ''-'' # str_nat (nat (- n)) else str_nat (nat n))"

subsection \<open>Student responses\<close>

text \<open>
  A response record as the repository returns it. A field that is \<open>None\<close> here is a key
  missing from the dictionary; the code reads every field with \<open>.get\<close> and a default.
  The values of \<open>flags\<close> are booleans, those of \<open>responses\<close> option letters.
\<close>

record response =
  student_name :: "string option"
  flags :: "(key \<times> bool) list option"
  responses :: "(key \<times> string) list option"

definition get_student_name :: "response \<Rightarrow> string" where
  "get_student_name r = (case student_name r of None \<Rightarrow> ''Unknown'' | Some n \<Rightarrow> n)"

definition get_flags :: "response \<Rightarrow> (key \<times> bool) list" where
  "get_flags r = (case flags r of None \<Rightarrow> [] | Some f \<Rightarrow> f)"

definition get_responses :: "response \<Rightarrow> (key \<times> string) list" where
  "get_responses r = (case responses r of None \<Rightarrow> [] | Some f \<Rightarrow> f)"

subsection \<open>\<open>calculate_flag_statistics\<close>\<close>

text \<open>
  \<open>flag_stats['question_flag_details']\<close> is a dictionary whose keys are the indices
  \<open>0, ..., len(questions) - 1\<close> in this order (they come from \<open>enumerate\<close>); it is the
  list of its values here, so that \<open>q_idx in flag_stats['question_flag_details']\<close> is
  \<open>0 \<le> q_idx < len(questions)\<close> and \<open>.values()\<close> is the list itself.
\<close>

record detail =
  question_text :: pyval
  flag_count :: nat
  flagged_by :: "string list"

record flag_stats =
  total_flags :: nat
  flagged_questions :: nat
  question_flag_details :: "detail list"

definition init_detail :: "question \<Rightarrow> detail" where
  "init_detail q =
     \<lparr>question_text = dict_get q ''question'' (Str ''Unknown''), flag_count = 0, flagged_by = []\<rparr>"

definition init_flag_stats :: "question list \<Rightarrow> flag_stats" where
  "init_flag_stats questions =
     \<lparr>total_flags = 0, flagged_questions = 0, question_flag_details = map init_detail questions\<rparr>"

text \<open>The three updates of one counted flag (lines 683 to 685).\<close>

definition add_flag :: "string \<Rightarrow> nat \<Rightarrow> flag_stats \<Rightarrow> flag_stats" where
  "add_flag name i st =
     (let ds = question_flag_details st; d = ds ! i in
      st\<lparr>question_flag_details :=
           ds[i := d\<lparr>flag_count := flag_count d + 1, flagged_by := flagged_by d @ [name]\<rparr>],
         total_flags := total_flags st + 1\<rparr>)"

text \<open>The inner loop, over the items of one response's \<open>flags\<close>.\<close>

fun count_flags :: "string \<Rightarrow> (key \<times> bool) list \<Rightarrow> flag_stats \<Rightarrow> py_error + flag_stats" where
  "count_flags name [] st = Inr st"
| "count_flags name ((q_idx_str, is_flagged) # rest) st =
     (if is_flagged then
        (case py_int q_idx_str of
           Inl e \<Rightarrow> Inl e
         | Inr q_idx \<Rightarrow>
             if 0 \<le> q_idx \<and> q_idx < int (length (question_flag_details st))
             then count_flags name rest (add_flag name (nat q_idx) st)
             else count_flags name rest st)
      else count_flags name rest st)"

text \<open>The outer loop, over the responses.\<close>

fun count_responses :: "response list \<Rightarrow> flag_stats \<Rightarrow> py_error + flag_stats" where
  "count_responses [] st = Inr st"
| "count_responses (r # rs) st =
     (case count_flags (get_student_name r) (get_flags r) st of
        Inl e \<Rightarrow> Inl e
      | Inr st' \<Rightarrow> count_responses rs st')"

definition calculate_flag_statistics :: "response list \<Rightarrow> question list \<Rightarrow> py_error + flag_stats" where
  "calculate_flag_statistics rs questions =
     (case count_responses rs (init_flag_stats questions) of
        Inl e \<Rightarrow> Inl e
      | Inr st \<Rightarrow>
          Inr (st\<lparr>flagged_questions :=
                   length (filter (\<lambda>q. flag_count q > 0) (question_flag_details st))\<rparr>))"



subsection \<open>The answers of one response in \<open>view_ticket_analytics\<close> (lines 623 to 654)\<close>

text \<open>\<open>xs[i]\<close> on a list: a negative index counts from the end, out of range raises.\<close>

definition list_getitem :: "'a list \<Rightarrow> int \<Rightarrow> py_error + 'a" where
  "list_getitem xs i =
     (if 0 \<le> i \<and> i < int (length xs) then Inr (xs ! nat i)
      else if i < 0 \<and> - int (length xs) \<le> i then Inr (xs ! nat (int (length xs) + i))
      else Inl IndexError)"

text \<open>
  One rendered answer: the index, the letter chosen, the status symbol, the flag symbol,
  the text of the chosen option and, when the answer is wrong, the text of the right one.
\<close>

record answer_row =
  row_index :: int
  row_answer :: string
  row_is_correct :: bool
  row_is_flagged :: bool
  row_answer_text :: string
  row_correct_text :: "string option"

definition answer_row :: "question list \<Rightarrow> (key \<times> bool) list \<Rightarrow> int \<Rightarrow> string \<Rightarrow> py_error + answer_row" where
  "answer_row questions student_flags q_idx student_answer =
     (case list_getitem questions q_idx of
        Inl e \<Rightarrow> Inl e
      | Inr question \<Rightarrow>
          (case map_of question ''correct_answer'' of
             None \<Rightarrow> Inl KeyError
           | Some correct_answer \<Rightarrow>
               let is_flagged = dict_get student_flags (StrKey (py_str q_idx)) False;
                   is_correct = (Str student_answer = correct_answer)
               in (case map_of question ''options'' of
                     None \<Rightarrow> Inl KeyError
                   | Some (Str _) \<Rightarrow> Inl AttributeError
                   | Some (Dict opts) \<Rightarrow>
                       let row = \<lparr>row_index = q_idx, row_answer = student_answer,
                                  row_is_correct = is_correct, row_is_flagged = is_flagged,
                                  row_answer_text = dict_get opts student_answer ''N/A'',
                                  row_correct_text = None\<rparr>
                       in if is_correct then Inr row
                          else (case correct_answer of
                                  Dict _ \<Rightarrow> Inl TypeError
                                | Str c \<Rightarrow>
                                    Inr (row\<lparr>row_correct_text := Some (dict_get opts c ''N/A'')\<rparr>)))))"

fun answer_rows :: "question list \<Rightarrow> (key \<times> bool) list \<Rightarrow> (key \<times> string) list \<Rightarrow> py_error + answer_row list" where
  "answer_rows questions student_flags [] = Inr []"
| "answer_rows questions student_flags ((q_idx_str, student_answer) # rest) =
     (case py_int q_idx_str of
        Inl e \<Rightarrow> Inl e
      | Inr q_idx \<Rightarrow>
          if q_idx < int (length questions) then
            (case answer_row questions student_flags q_idx student_answer of
               Inl e \<Rightarrow> Inl e
             | Inr row \<Rightarrow>
                 (case answer_rows questions student_flags rest of
                    Inl e \<Rightarrow> Inl e
                  | Inr rows \<Rightarrow> Inr (row # rows)))
          else answer_rows questions student_flags rest)"

definition response_answers :: "question list \<Rightarrow> response \<Rightarrow> py_error + answer_row list" where
  "response_answers questions r = answer_rows questions (get_flags r) (get_responses r)"

text \<open>A question as the data model has it: a letter as right answer, a dictionary of options.\<close>

definition well_formed :: "question \<Rightarrow> bool" where
  "well_formed q =
     ((case map_of q ''correct_answer'' of Some (Str _) \<Rightarrow> True | _ \<Rightarrow> False) \<and>
      (case map_of q ''options'' of Some (Dict _) \<Rightarrow> True | _ \<Rightarrow> False))"

text \<open>The indices of the answers that lie in the question list, in the order of the keys.\<close>

fun indices_in_range :: "nat \<Rightarrow> (key \<times> string) list \<Rightarrow> int list" where
  "indices_in_range n [] = []"
| "indices_in_range n ((k, a) # rest) =
     (case py_int k of
        Inr j \<Rightarrow> if j < int n then j # indices_in_range n rest else indices_in_range n rest
      | Inl _ \<Rightarrow> indices_in_range n rest)"

text \<open>A key that \<open>int\<close> reads: an integer, or a string that decodes to one.\<close>

definition readable_key :: "key \<Rightarrow> bool" where
  "readable_key k = (case py_int k of Inr _ \<Rightarrow> True | Inl _ \<Rightarrow> False)"

text \<open>A key that \<open>int\<close> reads as an index of the data model: not negative.\<close>

definition index_key :: "key \<Rightarrow> bool" where
  "index_key k = (case py_int k of Inr j \<Rightarrow> 0 \<le> j | Inl _ \<Rightarrow> False)"

text \<open>
  A \<open>flags\<close> dictionary without the items whose key \<open>int\<close> reads as an index outside
  the question list, and a response with its flags so restricted.
\<close>

definition flags_in_range :: "nat \<Rightarrow> (key \<times> bool) list \<Rightarrow> (key \<times> bool) list" where
  "flags_in_range n items =
     filter (\<lambda>(k, f). case py_int k of Inr j \<Rightarrow> 0 \<le> j \<and> j < int n | Inl _ \<Rightarrow> True) items"

definition restrict_flags :: "nat \<Rightarrow> response \<Rightarrow> response" where
  "restrict_flags n r = r\<lparr>flags := Some (flags_in_range n (get_flags r))\<rparr>"

subsection \<open>The collaborators: generator and repository\<close>

text \<open>
  The model call and \<open>json.loads\<close> of its text are outside the repository: the call raises,
  or its text does not parse, or it parses to a dictionary. The text parsed is cut from the
  first \<open>{\<close> to the last \<open>}\<close>, so a value that parses is a dictionary; it is reduced here to
  its member \<open>questions\<close> (\<open>None\<close> when the key is missing), taken to be a list of question
  dictionaries. \<open>save_question\<close> and \<open>create_exit_ticket\<close> of firebase_helper are not part
  of the sources either: a call returns (the result of \<open>save_question\<close> is thrown away)
  or raises. A ticket is a dictionary, or \<open>None\<close>.
\<close>

datatype llm_outcome = LlmRaised | LlmUnparsable | LlmParsed "question list option"

datatype save_outcome = SaveReturned | SaveRaised

type_synonym ticket = "(string \<times> pyval) list"

datatype create_outcome = CreateRaised | CreateReturned "ticket option"

record env =
  api_key :: bool
  llm :: "string \<Rightarrow> string \<Rightarrow> int \<Rightarrow> string \<Rightarrow> llm_outcome"
  save_question :: "question \<Rightarrow> save_outcome"
  create_exit_ticket :: "question list \<Rightarrow> string \<Rightarrow> string \<Rightarrow> string \<Rightarrow> create_outcome"

subsection \<open>\<open>generate_mcqs\<close>\<close>

text \<open>
  The loop of lines 106 to 108: \<open>q["subject"] = subject\<close>, then \<open>save_question\<close>. An
  exception of \<open>save_question\<close> leaves the loop and the function (\<open>None\<close> here).
\<close>

fun save_all :: "env \<Rightarrow> string \<Rightarrow> question list \<Rightarrow> question list option" where
  "save_all e subject [] = Some []"
| "save_all e subject (q # qs) =
     (let q' = AList.update ''subject'' (Str subject) q in
      case save_question e q' of
        SaveRaised \<Rightarrow> None
      | SaveReturned \<Rightarrow> map_option (Cons q') (save_all e subject qs))"

text \<open>
  The result is \<open>None\<close> for Python's \<open>None\<close>, \<open>Some None\<close> for a dictionary without
  \<open>questions\<close> and \<open>Some (Some qs)\<close> for a dictionary with the questions \<open>qs\<close>.
\<close>

definition generate_mcqs :: "env \<Rightarrow> string \<Rightarrow> string \<Rightarrow> int \<Rightarrow> string \<Rightarrow> question list option option" where
  "generate_mcqs e lecture_topics ai_instructions num_questions subject =
     (if \<not> api_key e then None
      else (case llm e lecture_topics ai_instructions num_questions subject of
              LlmRaised \<Rightarrow> None
            | LlmUnparsable \<Rightarrow> None
            | LlmParsed None \<Rightarrow> Some None
            | LlmParsed (Some qs) \<Rightarrow>
                (case save_all e subject qs of None \<Rightarrow> None | Some qs' \<Rightarrow> Some (Some qs'))))"

subsection \<open>The session state\<close>

text \<open>
  \<open>st.session_state\<close> keeps Python objects. Lines 256 and 257 (and 363 and 364) put one
  and the same list object under \<open>teacher_all_mcqs\<close> and \<open>teacher_mcqs\<close>, and an edit
  assigns into that list in place, so the two keys hold references into a store of
  lists. A reference is made by \<open>alloc\<close> only; reading one that the store does not hold
  gives \<open>None\<close>. A key that is \<open>None\<close> is missing from the session or holds Python's
  \<open>None\<close>: \<open>teacher_dashboard\<close> sets the three keys it tests to \<open>None\<close>, \<open>None\<close> and
  \<open>False\<close> when they are missing, and the other keys are read with \<open>.get\<close> and a
  default. \<open>teacher_edit_mode\<close> holds the keys \<open>teacher_edit_mode_{i}\<close>.
\<close>

type_synonym ref = nat

record session =
  store :: "ref \<rightharpoonup> question list"
  next_ref :: ref
  teacher_mcqs :: "ref option"
  teacher_all_mcqs :: "ref option"
  teacher_ready_for_review :: bool
  teacher_subject :: "string option"
  teacher_lecture_topics :: "string option"
  teacher_ai_instructions :: "string option"
  teacher_num_questions :: "int option"
  published_ticket :: "ticket option"
  teacher_edit_mode :: "nat \<rightharpoonup> bool"

definition init_session :: session where
  "init_session =
     \<lparr>store = Map.empty, next_ref = 0, teacher_mcqs = None, teacher_all_mcqs = None,
      teacher_ready_for_review = False, teacher_subject = None, teacher_lecture_topics = None,
      teacher_ai_instructions = None, teacher_num_questions = None, published_ticket = None,
      teacher_edit_mode = Map.empty\<rparr>"

definition alloc :: "question list \<Rightarrow> session \<Rightarrow> ref \<times> session" where
  "alloc qs s = (next_ref s, s\<lparr>store := (store s)(next_ref s \<mapsto> qs), next_ref := Suc (next_ref s)\<rparr>)"

definition deref :: "session \<Rightarrow> ref option \<Rightarrow> question list option" where
  "deref s r = (case r of None \<Rightarrow> None | Some a \<Rightarrow> store s a)"

text \<open>The draft is the list under \<open>teacher_all_mcqs\<close>.\<close>

definition draft :: "session \<Rightarrow> question list option" where
  "draft s = deref s (teacher_all_mcqs s)"

text \<open>The flow control of \<open>teacher_dashboard\<close> (lines 169 to 174).\<close>

datatype page = InputPage | QuestionsPage

definition route :: "session \<Rightarrow> page" where
  "route s =
     (if teacher_mcqs s = None then InputPage
      else if \<not> teacher_ready_for_review s then QuestionsPage
      else InputPage)"

text \<open>
  The code reports a failure with \<open>st.error\<close> and returns. The kinds are those of the
  specification: \<open>ValidationError\<close> is "Please enter lecture topics", \<open>GenerationError\<close>
  is "Only k questions were generated", "Failed to generate MCQs" and "Failed to generate a
  new set", \<open>PersistenceError\<close> is "Failed to publish exit ticket" and "Error publishing
  exit ticket", \<open>NoQuestions\<close> is "No questions to publish!".
\<close>

datatype error = ValidationError | GenerationError | PersistenceError | NoQuestions

subsection \<open>\<open>show_teacher_input_page\<close>, the form submitted\<close>

definition show_teacher_input_page :: "env \<Rightarrow> string \<Rightarrow> string \<Rightarrow> string \<Rightarrow> int \<Rightarrow> session \<Rightarrow> error option \<times> session" where
  "show_teacher_input_page e subject lecture_topics ai_instructions num_questions s =
     (if strip lecture_topics = [] then (Some ValidationError, s)
      else (case generate_mcqs e lecture_topics ai_instructions num_questions subject of
              Some (Some questions) \<Rightarrow>
                if int (length questions) < num_questions then (Some GenerationError, s)
                else (let (r, s1) = alloc questions s in
                      (None, s1\<lparr>teacher_subject := Some subject,
                                teacher_lecture_topics := Some lecture_topics,
                                teacher_ai_instructions := Some ai_instructions,
                                teacher_all_mcqs := Some r,
                                teacher_mcqs := Some r,
                                teacher_ready_for_review := False\<rparr>))
            | _ \<Rightarrow> (Some GenerationError, s)))"

subsection \<open>\<open>show_teacher_questions_page\<close>\<close>

text \<open>Drawing the page gives every question an edit flag (lines 281 to 284).\<close>

definition show_teacher_questions_page :: "session \<Rightarrow> session" where
  "show_teacher_questions_page s =
     (case draft s of
        None \<Rightarrow> s
      | Some all_mcqs \<Rightarrow>
          if all_mcqs = [] then s
          else s\<lparr>teacher_edit_mode :=
                   (\<lambda>i. if i < length all_mcqs \<and> teacher_edit_mode s i = None then Some False
                        else teacher_edit_mode s i)\<rparr>)"

text \<open>The button "Edit" of question \<open>i\<close> (line 303).\<close>

definition click_edit :: "nat \<Rightarrow> session \<Rightarrow> session" where
  "click_edit i s = s\<lparr>teacher_edit_mode := (teacher_edit_mode s)(i \<mapsto> True)\<rparr>"

text \<open>The button "Save" of question \<open>i\<close> (lines 334 to 345).\<close>

definition edited_question :: "string \<Rightarrow> (string \<times> string) list \<Rightarrow> string \<Rightarrow> string \<Rightarrow> string \<Rightarrow> string \<Rightarrow> question" where
  "edited_question q_text options correct_option explanation topic subtopic =
     [(''question'', Str q_text), (''options'', Dict options),
      (''correct_answer'', Str correct_option), (''explanation'', Str explanation),
      (''topic'', Str topic), (''subtopic'', Str subtopic)]"

definition click_save :: "nat \<Rightarrow> string \<Rightarrow> (string \<times> string) list \<Rightarrow> string \<Rightarrow> string \<Rightarrow> string \<Rightarrow> string \<Rightarrow> session \<Rightarrow> py_error + session" where
  "click_save i q_text options correct_option explanation topic subtopic s =
     (case teacher_all_mcqs s of
        None \<Rightarrow> Inl TypeError
      | Some r \<Rightarrow>
          (case store s r of
             None \<Rightarrow> Inl TypeError
           | Some all_mcqs \<Rightarrow>
               if i < length all_mcqs
               then Inr (s\<lparr>store := (store s)(r \<mapsto> all_mcqs
                              [i := edited_question q_text options correct_option explanation topic subtopic]),
                          teacher_edit_mode := (teacher_edit_mode s)(i \<mapsto> False)\<rparr>)
               else Inl IndexError))"

text \<open>The button "Generate New Set" (lines 355 to 368): first the arguments, then the call.\<close>

definition new_set_topics :: "session \<Rightarrow> string" where
  "new_set_topics s = (case teacher_lecture_topics s of None \<Rightarrow> [] | Some t \<Rightarrow> t)"

definition new_set_instructions :: "session \<Rightarrow> string" where
  "new_set_instructions s = (case teacher_ai_instructions s of None \<Rightarrow> [] | Some t \<Rightarrow> t)"

definition new_set_subject :: "session \<Rightarrow> string" where
  "new_set_subject s = (case teacher_subject s of None \<Rightarrow> [] | Some t \<Rightarrow> t)"

definition new_set_num_questions :: "session \<Rightarrow> int" where
  "new_set_num_questions s = (case teacher_num_questions s of None \<Rightarrow> 5 | Some n \<Rightarrow> n)"

definition generate_new_set :: "env \<Rightarrow> session \<Rightarrow> error option \<times> session" where
  "generate_new_set e s =
     (case generate_mcqs e (new_set_topics s) (new_set_instructions s)
             (new_set_num_questions s) (new_set_subject s) of
        Some (Some questions) \<Rightarrow>
          (let (r, s1) = alloc questions s in
           (None, s1\<lparr>teacher_mcqs := Some r, teacher_all_mcqs := Some r,
                     teacher_ready_for_review := True\<rparr>))
      | _ \<Rightarrow> (Some GenerationError, s))"

subsection \<open>\<open>publish_exit_ticket\<close>\<close>

text \<open>
  The four keys read from the ticket before the session is reset (lines 393 to 399); a
  missing one raises KeyError, which line 413 catches.
\<close>

definition ticket_keys_present :: "ticket \<Rightarrow> bool" where
  "ticket_keys_present t =
     (map_of t ''ticket_id'' \<noteq> None \<and> map_of t ''title'' \<noteq> None \<and>
      map_of t ''subject'' \<noteq> None \<and> map_of t ''total_questions'' \<noteq> None)"

definition publish_subject :: "session \<Rightarrow> string" where
  "publish_subject s = (case teacher_subject s of None \<Rightarrow> ''Unknown Subject'' | Some t \<Rightarrow> t)"

definition publish_topics :: "session \<Rightarrow> string" where
  "publish_topics s = (case teacher_lecture_topics s of None \<Rightarrow> ''No topics specified'' | Some t \<Rightarrow> t)"

definition publish_exit_ticket :: "env \<Rightarrow> session \<Rightarrow> (error + ticket) \<times> session" where
  "publish_exit_ticket e s =
     (case draft s of
        None \<Rightarrow> (Inl NoQuestions, s)
      | Some questions \<Rightarrow>
          if questions = [] then (Inl NoQuestions, s)
          else (case create_exit_ticket e questions ''Professor'' (publish_subject s) (publish_topics s) of
                  CreateRaised \<Rightarrow> (Inl PersistenceError, s)
                | CreateReturned None \<Rightarrow> (Inl PersistenceError, s)
                | CreateReturned (Some ticket) \<Rightarrow>
                    if ticket = [] then (Inl PersistenceError, s)
                    else if \<not> ticket_keys_present ticket then (Inl PersistenceError, s)
                    else (Inr ticket,
                          s\<lparr>published_ticket := Some ticket,
                            teacher_mcqs := None,
                            teacher_all_mcqs := None,
                            teacher_ready_for_review := False\<rparr>)))"

subsection \<open>A concrete run\<close>

text \<open>Three questions as the generator returns them, and collaborators that succeed.\<close>

definition mk_question :: "string \<Rightarrow> string \<Rightarrow> question" where
  "mk_question q_text correct =
     [(''question'', Str q_text),
      (''options'', Dict [(''A'', ''a''), (''B'', ''b''), (''C'', ''c''), (''D'', ''d'')]),
      (''correct_answer'', Str correct), (''explanation'', Str ''e''),
      (''topic'', Str ''t''), (''subtopic'', Str ''u'')]"

definition three_questions :: "question list" where
  "three_questions = [mk_question ''q0'' ''A'', mk_question ''q1'' ''B'', mk_question ''q2'' ''C'']"

definition a_ticket :: ticket where
  "a_ticket = [(''ticket_id'', Str ''T1''), (''title'', Str ''x''), (''subject'', Str ''Networking''),
               (''total_questions'', Str ''3'')]"

definition good_env :: env where
  "good_env =
     \<lparr>api_key = True,
      llm = (\<lambda>topics instructions n subject. LlmParsed (Some three_questions)),
      save_question = (\<lambda>q. SaveReturned),
      create_exit_ticket = (\<lambda>qs teacher subject topics. CreateReturned (Some a_ticket))\<rparr>"

text \<open>The same, but \<open>save_question\<close> raises.\<close>

definition save_raises_env :: env where
  "save_raises_env = good_env\<lparr>save_question := (\<lambda>q. SaveRaised)\<rparr>"

text \<open>The same, but \<open>create_exit_ticket\<close> returns \<open>None\<close>.\<close>

definition create_fails_env :: env where
  "create_fails_env = good_env\<lparr>create_exit_ticket := (\<lambda>qs teacher subject topics. CreateReturned None)\<rparr>"

text \<open>The same, but \<open>create_exit_ticket\<close> raises.\<close>

definition create_raises_env :: env where
  "create_raises_env = good_env\<lparr>create_exit_ticket := (\<lambda>qs teacher subject topics. CreateRaised)\<rparr>"

text \<open>The session after three questions were asked for and generated.\<close>

definition reviewing_session :: session where
  "reviewing_session =
     snd (show_teacher_input_page good_env ''Networking'' ''OSI model'' [] 3 init_session)"

text \<open>The same session after the page was drawn and "Edit" was clicked on question 0.\<close>

definition editing_session :: session where
  "editing_session = click_edit 0 (show_teacher_questions_page reviewing_session)"

text \<open>The questions as \<open>generate_mcqs\<close> returns them for the subject "Networking".\<close>

definition networking_questions :: "question list" where
  "networking_questions = map (AList.update ''subject'' (Str ''Networking'')) three_questions"

text \<open>
  The responses of the specification's scenario against a ticket of three questions: A
  flags 0 and 2 (string keys), B flags 0 (an integer key). A third response has a flag
  and an answer beyond the question list, a fourth a key that is no number.
\<close>

definition scenario_responses :: "response list" where
  "scenario_responses =
     [\<lparr>student_name = Some ''A'', flags = Some [(StrKey ''0'', True), (StrKey ''2'', True)],
       responses = Some [(StrKey ''0'', ''A'')]\<rparr>,
      \<lparr>student_name = Some ''B'', flags = Some [(IntKey 0, True)], responses = None\<rparr>]"


definition stray_response :: response where
  "stray_response =
     \<lparr>student_name = Some ''C'', flags = Some [(StrKey ''7'', True), (StrKey ''1'', True)],
      responses = Some [(StrKey ''5'', ''B''), (StrKey ''1'', ''A'')]\<rparr>"

definition malformed_response :: response where
  "malformed_response =
     \<lparr>student_name = Some ''D'', flags = Some [(StrKey ''abc'', True)],
      responses = Some [(StrKey ''abc'', ''A'')]\<rparr>"

text \<open>
  A response whose last flagged key and last answer key are the digit 1 after the
  character 28 (file separator), in a string that \<open>strip\<close> would turn into "1".
\<close>

definition separator_response :: response where
  "separator_response =
     \<lparr>student_name = Some ''E'',
      flags = Some [(StrKey ''0'', True), (StrKey [CHR 0x1C, CHR ''1''], True)],
      responses = Some [(StrKey ''2'', ''C''), (StrKey [CHR 0x1C, CHR ''1''], ''A'')]\<rparr>"

text \<open>The hypotheses on a response's keys, as tests that run.\<close>

definition flags_readable :: "response \<Rightarrow> bool" where
  "flags_readable r = list_all (\<lambda>(k, f). \<not> f \<or> readable_key k) (get_flags r)"

definition answers_indexed :: "response \<Rightarrow> bool" where
  "answers_indexed r = list_all (\<lambda>(k, a). index_key k) (get_responses r)"

definition answers_readable :: "response \<Rightarrow> bool" where
  "answers_readable r = list_all (\<lambda>(k, a). readable_key k) (get_responses r)"

text \<open>No answer key is read as a negative index.\<close>

definition answers_nonneg :: "response \<Rightarrow> bool" where
  "answers_nonneg r =
     list_all (\<lambda>(k, a). case py_int k of Inr j \<Rightarrow> 0 \<le> j | Inl _ \<Rightarrow> True) (get_responses r)"

section \<open>Properties\<close>

subsection \<open>Flag aggregation\<close>


lemma length_add_flag: "length (question_flag_details (add_flag name i st)) = length (question_flag_details st)"
  by (simp add: add_flag_def Let_def)

lemma count_flags_length:
  "count_flags name items st = Inr st' \<Longrightarrow>
   length (question_flag_details st') = length (question_flag_details st)"
  by (induction name items st rule: count_flags.induct)
     (auto simp: length_add_flag split: if_splits sum.splits)









lemmas py_int_eval = int_of_string_def int_strip_def is_int_space_def is_digit_def digit_val_def
  read_digits_def int_max_str_digits_def






subsection \<open>The authoring workflow\<close>

lemma save_all_returned:
  "\<forall>q\<in>set qs. save_question e (AList.update ''subject'' (Str subject) q) = SaveReturned \<Longrightarrow>
   save_all e subject qs = Some (map (AList.update ''subject'' (Str subject)) qs)"
  by (induction qs) (simp_all add: Let_def)

lemma save_all_raised:
  "\<exists>q\<in>set qs. save_question e (AList.update ''subject'' (Str subject) q) = SaveRaised \<Longrightarrow>
   save_all e subject qs = None"
  by (induction qs) (auto simp: Let_def split: save_outcome.splits)

lemma save_all_subject:
  "save_all e subject qs = Some qs' \<Longrightarrow> \<forall>q\<in>set qs'. map_of q ''subject'' = Some (Str subject)"
proof (induction qs arbitrary: qs')
  case Nil
  then show ?case by simp
next
  case (Cons q qs)
  then show ?case
    by (auto simp: Let_def update_conv' split: save_outcome.splits)
qed

lemma generate_mcqs_subject:
  "generate_mcqs e topics instr n subject = Some (Some qs) \<Longrightarrow>
   \<forall>q\<in>set qs. map_of q ''subject'' = Some (Str subject)"
  by (auto simp: generate_mcqs_def split: if_splits llm_outcome.splits option.splits
      dest: save_all_subject)

lemma strip_topics: "strip ''OSI model'' \<noteq> []"
  by (simp add: strip_def is_space_def)

lemma good_env_generates:
  "generate_mcqs good_env topics instr n ''Networking'' = Some (Some networking_questions)"
  by (simp add: generate_mcqs_def good_env_def networking_questions_def three_questions_def Let_def)

lemma length_networking_questions: "length networking_questions = 3"
  by (simp add: networking_questions_def three_questions_def)

text \<open>
  Claim C1. Let the topics be non-blank and let \<open>generate_mcqs\<close> return \<open>qs\<close>
  questions for the requested count \<open>n\<close> (any count, so each of 3 to 10). If there are
  fewer than \<open>n\<close>, submitting the form fails with a GenerationError and the session is the
  one before: the page shown stays the same and no draft is created or changed. If there
  are at least \<open>n\<close>, it succeeds, the draft is exactly \<open>qs\<close> (all of them, also those
  beyond \<open>n\<close>) and the questions page is shown.
\<close>

theorem request_draft_count:
  assumes "strip lecture_topics \<noteq> []"
    and "generate_mcqs e lecture_topics ai_instructions n subject = Some (Some qs)"
  shows "(int (length qs) < n \<longrightarrow>
            show_teacher_input_page e subject lecture_topics ai_instructions n s
              = (Some GenerationError, s)) \<and>
         (n \<le> int (length qs) \<longrightarrow>
            (\<exists>s'. show_teacher_input_page e subject lecture_topics ai_instructions n s = (None, s') \<and>
                  draft s' = Some qs \<and> route s' = QuestionsPage))"
  using assms
  by (simp add: show_teacher_input_page_def alloc_def draft_def deref_def route_def)

text \<open>
  The scenario of the specification: five questions asked for and three returned fails and
  leaves the session as it was; three asked for and three returned gives the draft.
\<close>

theorem request_draft_count_witness:
  "show_teacher_input_page good_env ''Networking'' ''OSI model'' [] 5 init_session
     = (Some GenerationError, init_session) \<and>
   (\<exists>s'. show_teacher_input_page good_env ''Networking'' ''OSI model'' [] 3 init_session = (None, s') \<and>
         draft s' = Some networking_questions \<and> route s' = QuestionsPage)"
  using request_draft_count [OF strip_topics good_env_generates, of 5 "[]" init_session]
    request_draft_count [OF strip_topics good_env_generates, of 3 "[]" init_session]
  by (simp add: length_networking_questions)


lemma reviewing_session_eq:
  "reviewing_session =
     init_session\<lparr>store := [0 \<mapsto> networking_questions], next_ref := Suc 0,
       teacher_subject := Some ''Networking'', teacher_lecture_topics := Some ''OSI model'',
       teacher_ai_instructions := Some [], teacher_all_mcqs := Some 0, teacher_mcqs := Some 0,
       teacher_ready_for_review := False\<rparr>"
  by (simp add: reviewing_session_def show_teacher_input_page_def strip_topics
      good_env_generates length_networking_questions alloc_def init_session_def)

lemma draft_reviewing_session: "draft reviewing_session = Some networking_questions"
  by (simp add: reviewing_session_eq draft_def deref_def init_session_def)

lemma route_reviewing_session: "route reviewing_session = QuestionsPage"
  by (simp add: reviewing_session_eq route_def init_session_def)

lemma new_set_subject_reviewing: "new_set_subject reviewing_session = ''Networking''"
  by (simp add: reviewing_session_eq new_set_subject_def init_session_def)

lemma generate_new_set_success:
  assumes "generate_mcqs e (new_set_topics s) (new_set_instructions s)
             (new_set_num_questions s) (new_set_subject s) = Some (Some qs)"
  shows "\<exists>s'. generate_new_set e s = (None, s') \<and> draft s' = Some qs \<and> route s' = InputPage"
  using assms by (simp add: generate_new_set_def alloc_def draft_def deref_def route_def)

text \<open>
  Claim C3. The code at the failing input: in the session that reviews three generated
  questions, "Generate New Set" succeeds and stores the new questions, but it sets
  \<open>teacher_ready_for_review\<close> to \<open>True\<close>, and with that value the flow control shows the
  input page, not the questions page. (\<open>generate_new_set_success\<close> is the same for every
  session and generator.)
\<close>

theorem generate_new_set_shows_input_page:
  "route reviewing_session = QuestionsPage \<and>
   fst (generate_new_set good_env reviewing_session) = None \<and>
   draft (snd (generate_new_set good_env reviewing_session)) = Some networking_questions \<and>
   route (snd (generate_new_set good_env reviewing_session)) = InputPage"
proof -
  have "generate_mcqs good_env (new_set_topics reviewing_session)
          (new_set_instructions reviewing_session) (new_set_num_questions reviewing_session)
          (new_set_subject reviewing_session) = Some (Some networking_questions)"
    by (simp add: new_set_subject_reviewing good_env_generates)
  then have "generate_new_set good_env reviewing_session =
      (None, (snd (alloc networking_questions reviewing_session))
               \<lparr>teacher_mcqs := Some (fst (alloc networking_questions reviewing_session)),
                 teacher_all_mcqs := Some (fst (alloc networking_questions reviewing_session)),
                 teacher_ready_for_review := True\<rparr>)"
    by (simp add: generate_new_set_def split_def Let_def)
  then show ?thesis
    by (simp add: route_reviewing_session) (simp add: alloc_def draft_def deref_def route_def)
qed

lemma input_page_keeps_num_questions:
  "teacher_num_questions (snd (show_teacher_input_page e subject topics instr n s))
     = teacher_num_questions s"
  by (simp add: show_teacher_input_page_def alloc_def
      split: option.splits)

text \<open>
  Claim C6. The code at the failing input: three questions are asked for and generated;
  the form does not store the count (\<open>input_page_keeps_num_questions\<close>), so
  "Generate New Set" reads the default of \<open>teacher_num_questions\<close> and asks the
  generator for five.
\<close>

theorem generate_new_set_count_is_five:
  "fst (show_teacher_input_page good_env ''Networking'' ''OSI model'' [] 3 init_session) = None \<and>
   reviewing_session =
     snd (show_teacher_input_page good_env ''Networking'' ''OSI model'' [] 3 init_session) \<and>
   new_set_num_questions reviewing_session = 5"
  by (simp add: reviewing_session_def new_set_num_questions_def input_page_keeps_num_questions
      init_session_def show_teacher_input_page_def strip_topics good_env_generates
      length_networking_questions alloc_def)


lemma publish_success_session:
  assumes "publish_exit_ticket e s = (Inr t, s')"
  shows "s' = s\<lparr>published_ticket := Some t, teacher_mcqs := None, teacher_all_mcqs := None,
                  teacher_ready_for_review := False\<rparr>"
  using assms
  by (auto simp: publish_exit_ticket_def
      split: option.splits if_splits create_outcome.splits)

lemma publish_no_draft:
  "teacher_all_mcqs s = None \<Longrightarrow> publish_exit_ticket e s = (Inl NoQuestions, s)"
  by (simp add: publish_exit_ticket_def draft_def deref_def)

text \<open>
  Claim C4, as amended. After a successful publish \<open>teacher_mcqs\<close> and
  \<open>teacher_all_mcqs\<close> are \<open>None\<close> and \<open>teacher_ready_for_review\<close> is \<open>False\<close>: there
  is no draft, the input page is shown, the ticket is kept under \<open>published_ticket\<close>,
  and a second publish finds no questions, whatever the repository would do. The edit
  flags of the questions are left as they were.
\<close>

theorem publish_discards_draft:
  assumes "publish_exit_ticket e s = (Inr t, s')"
  shows "teacher_mcqs s' = None \<and> teacher_all_mcqs s' = None \<and>
         \<not> teacher_ready_for_review s' \<and> draft s' = None \<and> route s' = InputPage \<and>
         published_ticket s' = Some t \<and>
         teacher_edit_mode s' = teacher_edit_mode s \<and>
         (\<forall>e'. publish_exit_ticket e' s' = (Inl NoQuestions, s'))"
proof -
  note eq = publish_success_session [OF assms]
  have none: "teacher_all_mcqs s' = None" by (simp add: eq)
  have "\<forall>e'. publish_exit_ticket e' s' = (Inl NoQuestions, s')"
    using publish_no_draft [OF none] by blast
  moreover have "draft s' = None" by (simp add: draft_def deref_def none)
  moreover have "route s' = InputPage" by (simp add: eq route_def)
  ultimately show ?thesis by (simp add: eq)
qed

lemma editing_session_eq:
  "editing_session =
     reviewing_session\<lparr>teacher_edit_mode := [0 \<mapsto> True, 1 \<mapsto> False, 2 \<mapsto> False]\<rparr>"
proof -
  have "teacher_edit_mode reviewing_session = Map.empty"
    by (simp add: reviewing_session_eq init_session_def)
  then have "(\<lambda>i. if i < 3 \<and> teacher_edit_mode reviewing_session i = None then Some False
                  else teacher_edit_mode reviewing_session i)(0 \<mapsto> True)
             = [0 \<mapsto> True, 1 \<mapsto> False, 2 \<mapsto> False]"
    by (auto simp: fun_eq_iff)
  then show ?thesis
    by (simp add: editing_session_def click_edit_def show_teacher_questions_page_def
        draft_reviewing_session length_networking_questions)
       (simp add: networking_questions_def three_questions_def)
qed

lemma draft_editing_session: "draft editing_session = Some networking_questions"
  using draft_reviewing_session
  by (simp add: editing_session_eq draft_def deref_def split: option.splits)

lemma publish_editing_session:
  "publish_exit_ticket good_env editing_session =
     (Inr a_ticket,
      editing_session\<lparr>published_ticket := Some a_ticket, teacher_mcqs := None,
        teacher_all_mcqs := None, teacher_ready_for_review := False\<rparr>)"
proof -
  have ne: "networking_questions \<noteq> []"
    using length_networking_questions by auto
  have t: "a_ticket \<noteq> [] \<and> ticket_keys_present a_ticket"
    by (simp add: a_ticket_def ticket_keys_present_def)
  show ?thesis
    by (simp add: publish_exit_ticket_def draft_editing_session ne t good_env_def)
qed

text \<open>
  Publishing the session in which question 0 is being edited.
\<close>

theorem publish_discards_draft_witness:
  "publish_exit_ticket good_env editing_session =
     (Inr a_ticket,
      editing_session\<lparr>published_ticket := Some a_ticket, teacher_mcqs := None,
        teacher_all_mcqs := None, teacher_ready_for_review := False\<rparr>) \<and>
   route (snd (publish_exit_ticket good_env editing_session)) = InputPage \<and>
   publish_exit_ticket good_env (snd (publish_exit_ticket good_env editing_session))
     = (Inl NoQuestions, snd (publish_exit_ticket good_env editing_session))"
  using publish_discards_draft [OF publish_editing_session] publish_editing_session
  by simp

text \<open>
  Claim C4 as stated fails: in the session where "Edit" was clicked on question 0, the
  publish succeeds and the edit flag of question 0 is still \<open>True\<close> afterwards, so the
  session is not the initial one.
\<close>

theorem publish_keeps_edit_flags:
  "fst (publish_exit_ticket good_env editing_session) = Inr a_ticket \<and>
   teacher_edit_mode (snd (publish_exit_ticket good_env editing_session)) 0 = Some True \<and>
   snd (publish_exit_ticket good_env editing_session) \<noteq> init_session"
proof -
  have "teacher_edit_mode editing_session 0 = Some True"
    by (simp add: editing_session_eq)
  then have "teacher_edit_mode (snd (publish_exit_ticket good_env editing_session)) 0 = Some True"
    by (simp add: publish_editing_session)
  note kept = this
  have "teacher_edit_mode init_session 0 = None"
    by (simp add: init_session_def)
  with kept have "snd (publish_exit_ticket good_env editing_session) \<noteq> init_session"
    by (metis option.distinct(1))
  with kept show ?thesis
    by (simp add: publish_editing_session)
qed

text \<open>
  Claim C5. With a non-empty draft, if \<open>create_exit_ticket\<close> raises, returns \<open>None\<close> or
  returns an empty ticket, publishing reports the failure and the session is the one
  before: the draft and the page shown are unchanged.
\<close>

theorem publish_failure_keeps_session:
  assumes "draft s = Some qs" and "qs \<noteq> []"
    and "create_exit_ticket e qs ''Professor'' (publish_subject s) (publish_topics s) = CreateRaised \<or>
         create_exit_ticket e qs ''Professor'' (publish_subject s) (publish_topics s) = CreateReturned None \<or>
         create_exit_ticket e qs ''Professor'' (publish_subject s) (publish_topics s) = CreateReturned (Some [])"
  shows "publish_exit_ticket e s = (Inl PersistenceError, s) \<and>
         draft (snd (publish_exit_ticket e s)) = Some qs \<and>
         route (snd (publish_exit_ticket e s)) = route s"
  using assms by (auto simp: publish_exit_ticket_def)

text \<open>
  The reviewing session with a repository that raises, and with one that returns \<open>None\<close>.
\<close>

theorem publish_failure_keeps_session_witness:
  "route reviewing_session = QuestionsPage \<and>
   publish_exit_ticket create_raises_env reviewing_session = (Inl PersistenceError, reviewing_session) \<and>
   publish_exit_ticket create_fails_env reviewing_session = (Inl PersistenceError, reviewing_session)"
proof -
  have ne: "networking_questions \<noteq> []"
    using length_networking_questions by auto
  have r: "create_exit_ticket create_raises_env networking_questions ''Professor''
             (publish_subject reviewing_session) (publish_topics reviewing_session) = CreateRaised \<or>
           create_exit_ticket create_raises_env networking_questions ''Professor''
             (publish_subject reviewing_session) (publish_topics reviewing_session) = CreateReturned None \<or>
           create_exit_ticket create_raises_env networking_questions ''Professor''
             (publish_subject reviewing_session) (publish_topics reviewing_session) = CreateReturned (Some [])"
    by (simp add: create_raises_env_def)
  have f: "create_exit_ticket create_fails_env networking_questions ''Professor''
             (publish_subject reviewing_session) (publish_topics reviewing_session) = CreateRaised \<or>
           create_exit_ticket create_fails_env networking_questions ''Professor''
             (publish_subject reviewing_session) (publish_topics reviewing_session) = CreateReturned None \<or>
           create_exit_ticket create_fails_env networking_questions ''Professor''
             (publish_subject reviewing_session) (publish_topics reviewing_session) = CreateReturned (Some [])"
    by (simp add: create_fails_env_def)
  from publish_failure_keeps_session [OF draft_reviewing_session ne r]
    publish_failure_keeps_session [OF draft_reviewing_session ne f]
    route_reviewing_session
  show ?thesis by simp
qed

subsection \<open>Logging and editing questions\<close>

text \<open>
  Claim C8, as amended. Let the API key be there and the model's answer parse to the
  questions \<open>qs\<close>. If every call of \<open>save_question\<close> returns (its result is thrown
  away), \<open>generate_mcqs\<close> returns the questions, each with its subject. If one call
  raises, \<open>generate_mcqs\<close> returns \<open>None\<close>, and submitting the form fails and leaves the
  session as it was: no draft is created.
\<close>

theorem save_question_outcome:
  assumes "api_key e" and "llm e topics instr n subject = LlmParsed (Some qs)"
  shows "((\<forall>q\<in>set qs. save_question e (AList.update ''subject'' (Str subject) q) = SaveReturned) \<longrightarrow>
            generate_mcqs e topics instr n subject
              = Some (Some (map (AList.update ''subject'' (Str subject)) qs))) \<and>
         ((\<exists>q\<in>set qs. save_question e (AList.update ''subject'' (Str subject) q) = SaveRaised) \<longrightarrow>
            generate_mcqs e topics instr n subject = None \<and>
            (\<forall>s. fst (show_teacher_input_page e subject topics instr n s) \<noteq> None \<and>
                 snd (show_teacher_input_page e subject topics instr n s) = s))"
  using assms
  by (auto simp: generate_mcqs_def show_teacher_input_page_def save_all_returned save_all_raised)

text \<open>Both cases on three parsed questions: \<open>save_question\<close> returns, and it raises.\<close>

theorem save_question_outcome_witness:
  "generate_mcqs good_env ''OSI model'' [] 3 ''Networking'' = Some (Some networking_questions) \<and>
   generate_mcqs save_raises_env ''OSI model'' [] 3 ''Networking'' = None \<and>
   snd (show_teacher_input_page save_raises_env ''Networking'' ''OSI model'' [] 3 init_session)
     = init_session"
proof -
  have g: "api_key good_env"
    and gl: "llm good_env ''OSI model'' [] 3 ''Networking'' = LlmParsed (Some three_questions)"
    and gs: "\<forall>q\<in>set three_questions.
              save_question good_env (AList.update ''subject'' (Str ''Networking'') q) = SaveReturned"
    by (simp_all add: good_env_def)
  have b: "api_key save_raises_env"
    and bl: "llm save_raises_env ''OSI model'' [] 3 ''Networking'' = LlmParsed (Some three_questions)"
    and bs: "\<exists>q\<in>set three_questions.
              save_question save_raises_env (AList.update ''subject'' (Str ''Networking'') q) = SaveRaised"
    by (auto simp: save_raises_env_def good_env_def three_questions_def)
  from save_question_outcome [OF g gl] gs save_question_outcome [OF b bl] bs
  show ?thesis by (simp add: networking_questions_def)
qed

text \<open>
  Claim C8 as stated fails: the model's answer parses to three questions, \<open>save_question\<close>
  raises, and \<open>generate_mcqs\<close> returns \<open>None\<close>; the form asked for three questions fails
  and the session is still the initial one, without a draft.
\<close>

theorem save_question_raise_blocks:
  "llm save_raises_env ''OSI model'' [] 3 ''Networking'' = LlmParsed (Some three_questions) \<and>
   generate_mcqs save_raises_env ''OSI model'' [] 3 ''Networking'' = None \<and>
   show_teacher_input_page save_raises_env ''Networking'' ''OSI model'' [] 3 init_session
     = (Some GenerationError, init_session) \<and>
   draft init_session = None"
  by (simp add: save_raises_env_def good_env_def three_questions_def generate_mcqs_def
      show_teacher_input_page_def strip_topics Let_def draft_def deref_def init_session_def)

lemma click_save_result:
  assumes "draft s = Some xs" and "i < length xs"
  shows "\<exists>s'. click_save i q_text options correct_option explanation topic subtopic s = Inr s' \<and>
              draft s' = Some (xs[i := edited_question q_text options correct_option explanation
                                        topic subtopic]) \<and>
              teacher_mcqs s' = teacher_mcqs s \<and>
              teacher_all_mcqs s' = teacher_all_mcqs s \<and>
              teacher_ready_for_review s' = teacher_ready_for_review s"
  using assms
  by (auto simp: click_save_def draft_def deref_def split: option.splits)

text \<open>
  Claim C9. In a draft \<open>xs\<close>, saving an edit of the question at a valid index \<open>i\<close>
  succeeds and gives a draft of the same length that holds the edited question at \<open>i\<close> and
  the questions of \<open>xs\<close> at every other index; the page shown is the same as before (the
  keys that the flow control reads are unchanged).
\<close>

theorem click_save_frame:
  assumes "draft s = Some xs" and "i < length xs"
  shows "\<exists>s' ys. click_save i q_text options correct_option explanation topic subtopic s = Inr s' \<and>
           draft s' = Some ys \<and> length ys = length xs \<and>
           (\<forall>j<length xs. j \<noteq> i \<longrightarrow> ys ! j = xs ! j) \<and>
           ys ! i = edited_question q_text options correct_option explanation topic subtopic \<and>
           route s' = route s"
proof -
  from click_save_result [OF assms, of q_text options correct_option explanation topic subtopic]
  obtain s' where
    s': "click_save i q_text options correct_option explanation topic subtopic s = Inr s'"
    and d: "draft s' = Some (xs[i := edited_question q_text options correct_option explanation
                                      topic subtopic])"
    and k: "teacher_mcqs s' = teacher_mcqs s"
       "teacher_ready_for_review s' = teacher_ready_for_review s"
    by blast
  from k have "route s' = route s" by (simp add: route_def)
  with s' d assms(2) show ?thesis by simp
qed

text \<open>Editing question 1 of the three questions under review.\<close>

theorem click_save_frame_witness:
  "\<exists>s' ys. click_save 1 ''new'' [(''A'', ''x'')] ''A'' ''why'' ''t'' ''u'' reviewing_session = Inr s' \<and>
     draft s' = Some ys \<and> length ys = 3 \<and>
     ys ! 0 = networking_questions ! 0 \<and> ys ! 2 = networking_questions ! 2 \<and>
     ys ! 1 = edited_question ''new'' [(''A'', ''x'')] ''A'' ''why'' ''t'' ''u'' \<and>
     route s' = QuestionsPage"
proof -
  have i: "1 < length networking_questions"
    by (simp add: length_networking_questions)
  from click_save_frame [OF draft_reviewing_session i,
      of "''new''" "[(''A'', ''x'')]" "''A''" "''why''" "''t''" "''u''"]
  show ?thesis
    by (auto simp: length_networking_questions route_reviewing_session)
qed

text \<open>
  Claim C10. Every question that \<open>generate_mcqs\<close> returns carries the subject. After an
  edit of the question at a valid index \<open>i\<close> is saved, the draft holds at \<open>i\<close> the
  dictionary of lines 335 to 342: the six keys question, options, correct_answer,
  explanation, topic and subtopic, in this order, each with the value that was edited,
  and no other key. The key subject is gone.
\<close>

theorem edit_drops_subject:
  assumes "draft s = Some xs" and "i < length xs"
  shows "(\<forall>e topics instr n subject qs.
            generate_mcqs e topics instr n subject = Some (Some qs) \<longrightarrow>
            (\<forall>q\<in>set qs. map_of q ''subject'' = Some (Str subject))) \<and>
         (\<exists>s' ys. click_save i q_text options correct_option explanation topic subtopic s = Inr s' \<and>
            draft s' = Some ys \<and>
            ys ! i = [(''question'', Str q_text), (''options'', Dict options),
                      (''correct_answer'', Str correct_option),
                      (''explanation'', Str explanation),
                      (''topic'', Str topic), (''subtopic'', Str subtopic)] \<and>
            map fst (ys ! i) = [''question'', ''options'', ''correct_answer'', ''explanation'',
                                ''topic'', ''subtopic''] \<and>
            map_of (ys ! i) ''subject'' = None)"
proof -
  from click_save_result [OF assms, of q_text options correct_option explanation topic subtopic]
  obtain s' where
    s': "click_save i q_text options correct_option explanation topic subtopic s = Inr s'"
    and d: "draft s' = Some (xs[i := edited_question q_text options correct_option explanation
                                      topic subtopic])"
    by blast
  from s' d assms(2)
  have "\<exists>s' ys. click_save i q_text options correct_option explanation topic subtopic s = Inr s' \<and>
            draft s' = Some ys \<and>
            ys ! i = [(''question'', Str q_text), (''options'', Dict options),
                      (''correct_answer'', Str correct_option),
                      (''explanation'', Str explanation),
                      (''topic'', Str topic), (''subtopic'', Str subtopic)] \<and>
            map fst (ys ! i) = [''question'', ''options'', ''correct_answer'', ''explanation'',
                                ''topic'', ''subtopic''] \<and>
            map_of (ys ! i) ''subject'' = None"
    by (simp add: edited_question_def)
  moreover have "\<forall>e topics instr n subject qs.
            generate_mcqs e topics instr n subject = Some (Some qs) \<longrightarrow>
            (\<forall>q\<in>set qs. map_of q ''subject'' = Some (Str subject))"
    using generate_mcqs_subject by blast
  ultimately show ?thesis by blast
qed

text \<open>
  The three questions under review were generated for the subject "Networking" and
  question 0 has it; after an edit of question 0 is saved, the draft holds at 0 the six
  edited values and no subject.
\<close>

theorem edit_drops_subject_witness:
  "generate_mcqs good_env ''OSI model'' [] 3 ''Networking'' = Some (Some networking_questions) \<and>
   map_of (networking_questions ! 0) ''subject'' = Some (Str ''Networking'') \<and>
   (\<exists>s' ys. click_save 0 ''new'' [(''A'', ''x'')] ''A'' ''why'' ''t'' ''u'' reviewing_session = Inr s' \<and>
      draft s' = Some ys \<and>
      ys ! 0 = [(''question'', Str ''new''), (''options'', Dict [(''A'', ''x'')]),
                (''correct_answer'', Str ''A''), (''explanation'', Str ''why''),
                (''topic'', Str ''t''), (''subtopic'', Str ''u'')] \<and>
      map_of (ys ! 0) ''subject'' = None)"
proof -
  have i: "0 < length networking_questions"
    by (simp add: length_networking_questions)
  note c10 = edit_drops_subject [OF draft_reviewing_session i,
      of "''new''" "[(''A'', ''x'')]" "''A''" "''why''" "''t''" "''u''"]
  note g = good_env_generates [of "''OSI model''" "[]" 3]
  from i have "networking_questions ! 0 \<in> set networking_questions"
    by (rule nth_mem)
  with c10 g
  have "map_of (networking_questions ! 0) ''subject'' = Some (Str ''Networking'')"
    by blast
  with c10 g show ?thesis by blast
qed

subsection \<open>Keys out of range and keys that are no numbers\<close>

text \<open>
  What \<open>int\<close> reads: white space of its own around the digits, but not the separator
  characters 28 to 31, and no more than 4300 digits.
\<close>

lemma int_skips_its_white_space:
  "py_int (StrKey [CHR 0x85, CHR ''-'', CHR ''1'', CHR ''_'', CHR ''0'', CHR 0xA0]) = Inr (- 10)"
  by (simp add: py_int_eval)

lemma int_keeps_separators:
  "strip [CHR 0x1C, CHR ''1''] = ''1''"
  "py_int (StrKey [CHR 0x1C, CHR ''1'']) = Inl ValueError"
  by (simp_all add: strip_def is_space_def py_int_eval)

lemma int_digit_limit:
  assumes "int_max_str_digits < n"
  shows "py_int (StrKey (replicate n CHR ''1'')) = Inl ValueError"
proof -
  from assms obtain m where n: "n = Suc m" by (cases n) simp_all
  have "int_strip (replicate n CHR ''1'') = replicate n CHR ''1''"
    by (simp add: int_strip_def is_int_space_def dropWhile_replicate)
  moreover have "read_digits (replicate n CHR ''1'') = None"
    using assms by (simp add: read_digits_def is_digit_def)
  ultimately show ?thesis
    by (simp add: int_of_string_def n [symmetric] del: replicate_Suc)
      (simp add: n)
qed

lemma count_flags_readable:
  "list_all (\<lambda>(k, f). \<not> f \<or> readable_key k) items \<Longrightarrow> \<exists>st'. count_flags name items st = Inr st'"
proof (induction items arbitrary: st)
  case Nil
  then show ?case by simp
next
  case (Cons item items)
  obtain k f where item: "item = (k, f)" by (cases item)
  from Cons.prems have rest: "list_all (\<lambda>(k, f). \<not> f \<or> readable_key k) items" by simp
  from Cons.prems item have "\<not> f \<or> (\<exists>j. py_int k = Inr j)"
    by (auto simp: readable_key_def split: sum.splits)
  with Cons.IH [OF rest] item show ?case
    by (auto split: sum.splits)
qed

lemma count_responses_readable:
  "list_all flags_readable rs \<Longrightarrow> \<exists>st'. count_responses rs st = Inr st'"
proof (induction rs arbitrary: st)
  case Nil
  then show ?case by simp
next
  case (Cons r rs)
  from Cons.prems have "list_all (\<lambda>(k, f). \<not> f \<or> readable_key k) (get_flags r)"
    by (simp add: flags_readable_def)
  from count_flags_readable [OF this] obtain st1 where
    "count_flags (get_student_name r) (get_flags r) st = Inr st1" by blast
  moreover from Cons.prems have "list_all flags_readable rs" by simp
  from Cons.IH [OF this] obtain st2 where "count_responses rs st1 = Inr st2" by blast
  ultimately show ?case by simp
qed

lemma count_flags_in_range:
  "n = length (question_flag_details st) \<Longrightarrow>
   count_flags name (flags_in_range n items) st = count_flags name items st"
proof (induction items arbitrary: st)
  case Nil
  then show ?case by (simp add: flags_in_range_def)
next
  case (Cons item items)
  obtain k f where item: "item = (k, f)" by (cases item)
  have tl: "flags_in_range n (item # items) =
      (if (case py_int k of Inr j \<Rightarrow> 0 \<le> j \<and> j < int n | Inl _ \<Rightarrow> True)
       then item # flags_in_range n items else flags_in_range n items)"
    by (simp add: flags_in_range_def item)
  have same: "count_flags name (flags_in_range n items) st' = count_flags name items st'"
    if "length (question_flag_details st') = n" for st'
    using Cons.IH [of st'] that by simp
  show ?case
  proof (cases "py_int k")
    case (Inl e)
    with tl item Cons.prems same [of st] show ?thesis by simp
  next
    case (Inr j)
    show ?thesis
    proof (cases "0 \<le> j \<and> j < int n")
      case True
      with tl item Inr Cons.prems same [of st] same [of "add_flag name (nat j) st"]
      show ?thesis by (simp add: length_add_flag)
    next
      case False
      with tl item Inr Cons.prems same [of st] show ?thesis by auto
    qed
  qed
qed

lemma get_restrict_flags:
  "get_flags (restrict_flags n r) = flags_in_range n (get_flags r)"
  "get_student_name (restrict_flags n r) = get_student_name r"
  by (simp_all add: restrict_flags_def get_flags_def get_student_name_def)

lemma count_responses_in_range:
  "n = length (question_flag_details st) \<Longrightarrow>
   count_responses (map (restrict_flags n) rs) st = count_responses rs st"
proof (induction rs arbitrary: st)
  case Nil
  then show ?case by simp
next
  case (Cons r rs)
  show ?case
  proof (cases "count_flags (get_student_name r) (get_flags r) st")
    case (Inl e)
    with Cons.prems show ?thesis
      by (simp add: get_restrict_flags count_flags_in_range)
  next
    case (Inr st1)
    from count_flags_length [OF Inr] Cons.prems
    have "n = length (question_flag_details st1)" by simp
    from Cons.IH [OF this] Inr Cons.prems show ?thesis
      by (simp add: get_restrict_flags count_flags_in_range)
  qed
qed

lemma answer_row_in_range:
  assumes "0 \<le> q" and "q < int (length questions)" and "list_all well_formed questions"
  shows "\<exists>row. answer_row questions student_flags q a = Inr row \<and> row_index row = q"
proof -
  from assms(1,2) have n: "nat q < length questions" by linarith
  with assms(3) have wf: "well_formed (questions ! nat q)"
    by (simp add: list_all_length)
  from assms(1,2) have g: "list_getitem questions q = Inr (questions ! nat q)"
    by (simp add: list_getitem_def)
  from wf obtain c opts where
    "map_of (questions ! nat q) ''correct_answer'' = Some (Str c)"
    "map_of (questions ! nat q) ''options'' = Some (Dict opts)"
    by (auto simp: well_formed_def split: option.splits pyval.splits)
  with g show ?thesis
    by (simp add: answer_row_def Let_def)
qed

lemma answer_rows_indexed:
  assumes "list_all well_formed questions"
  shows "list_all (\<lambda>(k, a). index_key k) items \<Longrightarrow>
         \<exists>rows. answer_rows questions student_flags items = Inr rows \<and>
                map row_index rows = indices_in_range (length questions) items"
proof (induction items)
  case Nil
  then show ?case by simp
next
  case (Cons item items)
  obtain k a where item: "item = (k, a)" by (cases item)
  from Cons.prems item obtain j where j: "py_int k = Inr j" "0 \<le> j"
    by (auto simp: index_key_def split: sum.splits)
  from Cons.prems have "list_all (\<lambda>(k, a). index_key k) items" by simp
  from Cons.IH [OF this] obtain rows where
    rows: "answer_rows questions student_flags items = Inr rows"
      "map row_index rows = indices_in_range (length questions) items"
    by blast
  show ?case
  proof (cases "j < int (length questions)")
    case True
    from answer_row_in_range [OF j(2) True assms, of student_flags a]
    obtain row where "answer_row questions student_flags j a = Inr row" "row_index row = j"
      by blast
    with item j True rows show ?thesis by simp
  next
    case False
    with item j rows show ?thesis by simp
  qed
qed

lemma py_int_error: "py_int k = Inl e \<Longrightarrow> e = ValueError"
  by (cases k) (auto simp: int_of_string_def split: list.splits if_splits option.splits)

lemma unreadable_key: "\<not> readable_key k \<Longrightarrow> py_int k = Inl ValueError"
proof -
  assume "\<not> readable_key k"
  then obtain e where e: "py_int k = Inl e"
    by (auto simp: readable_key_def split: sum.splits)
  from py_int_error [OF e] e show ?thesis by simp
qed

lemma count_flags_unreadable:
  "\<not> list_all (\<lambda>(k, f). \<not> f \<or> readable_key k) items \<Longrightarrow>
   count_flags name items st = Inl ValueError"
proof (induction items arbitrary: st)
  case Nil
  then show ?case by simp
next
  case (Cons item items)
  obtain k f where item: "item = (k, f)" by (cases item)
  show ?case
  proof (cases "\<not> f \<or> readable_key k")
    case True
    with Cons.prems item
    have rest: "\<not> list_all (\<lambda>(k, f). \<not> f \<or> readable_key k) items" by auto
    have same: "count_flags name items st' = Inl ValueError" for st'
      by (rule Cons.IH [OF rest])
    from True item same show ?thesis
      by (auto simp: readable_key_def split: sum.splits)
  next
    case False
    then have "f" and "py_int k = Inl ValueError"
      by (simp_all add: unreadable_key)
    with item show ?thesis by simp
  qed
qed

lemma count_responses_unreadable:
  "\<not> list_all flags_readable rs \<Longrightarrow> count_responses rs st = Inl ValueError"
proof (induction rs arbitrary: st)
  case Nil
  then show ?case by simp
next
  case (Cons r rs)
  show ?case
  proof (cases "flags_readable r")
    case True
    then have "list_all (\<lambda>(k, f). \<not> f \<or> readable_key k) (get_flags r)"
      by (simp add: flags_readable_def)
    from count_flags_readable [OF this] obtain st1 where
      st1: "count_flags (get_student_name r) (get_flags r) st = Inr st1" by blast
    from True Cons.prems have "\<not> list_all flags_readable rs" by simp
    from Cons.IH [OF this] st1 show ?thesis by simp
  next
    case False
    then have "\<not> list_all (\<lambda>(k, f). \<not> f \<or> readable_key k) (get_flags r)"
      by (simp add: flags_readable_def)
    from count_flags_unreadable [OF this] show ?thesis by simp
  qed
qed

lemma answer_rows_unreadable:
  "\<not> list_all (\<lambda>(k, a). readable_key k) items \<Longrightarrow>
   \<exists>e. answer_rows questions student_flags items = Inl e"
proof (induction items)
  case Nil
  then show ?case by simp
next
  case (Cons item items)
  obtain k a where item: "item = (k, a)" by (cases item)
  show ?case
  proof (cases "readable_key k")
    case True
    with Cons.prems item have "\<not> list_all (\<lambda>(k, a). readable_key k) items" by simp
    from Cons.IH [OF this] obtain e where "answer_rows questions student_flags items = Inl e"
      by blast
    with item show ?thesis
      by (auto split: sum.splits)
  next
    case False
    from unreadable_key [OF this] item show ?thesis by simp
  qed
qed

lemma answer_rows_unreadable_nonneg:
  assumes "list_all well_formed questions"
  shows "\<not> list_all (\<lambda>(k, a). readable_key k) items \<Longrightarrow>
         list_all (\<lambda>(k, a). case py_int k of Inr j \<Rightarrow> 0 \<le> j | Inl _ \<Rightarrow> True) items \<Longrightarrow>
         answer_rows questions student_flags items = Inl ValueError"
proof (induction items)
  case Nil
  then show ?case by simp
next
  case (Cons item items)
  obtain k a where item: "item = (k, a)" by (cases item)
  show ?case
  proof (cases "py_int k")
    case (Inl e)
    from py_int_error [OF this] Inl item show ?thesis by simp
  next
    case (Inr j)
    with Cons.prems item have j: "0 \<le> j" by simp
    from Inr Cons.prems(1) item have "\<not> list_all (\<lambda>(k, a). readable_key k) items"
      by (simp add: readable_key_def)
    moreover from Cons.prems(2)
    have "list_all (\<lambda>(k, a). case py_int k of Inr j \<Rightarrow> 0 \<le> j | Inl _ \<Rightarrow> True) items"
      by simp
    ultimately have rest: "answer_rows questions student_flags items = Inl ValueError"
      by (rule Cons.IH)
    show ?thesis
    proof (cases "j < int (length questions)")
      case True
      from answer_row_in_range [OF j True assms, of student_flags a]
      obtain row where "answer_row questions student_flags j a = Inr row" by blast
      with item Inr True rest show ?thesis by simp
    next
      case False
      with item Inr rest show ?thesis by simp
    qed
  qed
qed

text \<open>
  Claim C7, as amended. If every flagged key of every response is an integer or a string
  that \<open>int\<close> reads, \<open>calculate_flag_statistics\<close> raises nothing, and it returns what it
  returns on the responses without their flags beyond the question list: such flags are
  skipped. If every key of a response's answers is an integer or a string that \<open>int\<close>
  reads, none negative, and the questions have a right answer and options, the answers of
  the detail view raise nothing, and there is one row for each key below
  \<open>len(questions)\<close>, in the order of the keys: answers beyond the question list are skipped.
  A key that \<open>int\<close> does not read is not tolerated. If some response has a flagged key
  that \<open>int\<close> does not read, \<open>calculate_flag_statistics\<close> raises ValueError. If a response
  has an answer key that \<open>int\<close> does not read, the answers of the detail view raise an
  error, and the error is ValueError when the questions have a right answer and options
  and no answer key is read as a negative index.
\<close>

theorem defensive_keys:
  "(list_all flags_readable rs \<longrightarrow>
      (\<exists>st. calculate_flag_statistics rs questions = Inr st \<and>
            calculate_flag_statistics (map (restrict_flags (length questions)) rs) questions
              = Inr st)) \<and>
   (answers_indexed r \<and> list_all well_formed questions \<longrightarrow>
      (\<exists>rows. response_answers questions r = Inr rows \<and>
              map row_index rows = indices_in_range (length questions) (get_responses r))) \<and>
   (\<not> list_all flags_readable rs \<longrightarrow>
      calculate_flag_statistics rs questions = Inl ValueError) \<and>
   (\<not> answers_readable r \<longrightarrow> (\<exists>e. response_answers questions r = Inl e)) \<and>
   (\<not> answers_readable r \<and> answers_nonneg r \<and> list_all well_formed questions \<longrightarrow>
      response_answers questions r = Inl ValueError)"
proof (intro conjI impI)
  assume "list_all flags_readable rs"
  from count_responses_readable [OF this] obtain st1 where
    st1: "count_responses rs (init_flag_stats questions) = Inr st1" by blast
  have "length questions = length (question_flag_details (init_flag_stats questions))"
    by (simp add: init_flag_stats_def)
  from count_responses_in_range [OF this] st1
  have "count_responses (map (restrict_flags (length questions)) rs) (init_flag_stats questions)
          = Inr st1" by simp
  with st1 show "\<exists>st. calculate_flag_statistics rs questions = Inr st \<and>
      calculate_flag_statistics (map (restrict_flags (length questions)) rs) questions = Inr st"
    by (simp add: calculate_flag_statistics_def)
next
  assume a: "answers_indexed r \<and> list_all well_formed questions"
  then have "list_all (\<lambda>(k, a). index_key k) (get_responses r)"
    by (simp add: answers_indexed_def)
  from answer_rows_indexed [OF conjunct2 [OF a] this]
  show "\<exists>rows. response_answers questions r = Inr rows \<and>
      map row_index rows = indices_in_range (length questions) (get_responses r)"
    by (simp add: response_answers_def)
next
  assume "\<not> list_all flags_readable rs"
  from count_responses_unreadable [OF this]
  show "calculate_flag_statistics rs questions = Inl ValueError"
    by (simp add: calculate_flag_statistics_def)
next
  assume "\<not> answers_readable r"
  then have "\<not> list_all (\<lambda>(k, a). readable_key k) (get_responses r)"
    by (simp add: answers_readable_def)
  from answer_rows_unreadable [OF this]
  show "\<exists>e. response_answers questions r = Inl e"
    by (simp add: response_answers_def)
next
  assume a: "\<not> answers_readable r \<and> answers_nonneg r \<and> list_all well_formed questions"
  then have u: "\<not> list_all (\<lambda>(k, a). readable_key k) (get_responses r)"
    and n: "list_all (\<lambda>(k, a). case py_int k of Inr j \<Rightarrow> 0 \<le> j | Inl _ \<Rightarrow> True) (get_responses r)"
    and w: "list_all well_formed questions"
    by (simp_all add: answers_readable_def answers_nonneg_def)
  from answer_rows_unreadable_nonneg [OF w u n]
  show "response_answers questions r = Inl ValueError"
    by (simp add: response_answers_def)
qed

text \<open>
  The scenario's responses and one with a flag at index 7 and an answer at index 5, against
  three questions: the statistics are those of the scenario with one more flag on question
  1, and the detail view of the third response has a row for index 1 only. With one more
  response whose last flagged key and last answer key are a digit after the separator
  character 28, which \<open>strip\<close> removes and \<open>int\<close> does not, both raise ValueError.
\<close>

theorem defensive_keys_witness:
  "list_all flags_readable (scenario_responses @ [stray_response]) \<and>
   answers_indexed stray_response \<and> list_all well_formed networking_questions \<and>
   (\<exists>st. calculate_flag_statistics (scenario_responses @ [stray_response]) networking_questions
           = Inr st \<and>
         calculate_flag_statistics
           (map (restrict_flags (length networking_questions)) (scenario_responses @ [stray_response]))
           networking_questions = Inr st) \<and>
   (\<exists>rows. response_answers networking_questions stray_response = Inr rows \<and>
           map row_index rows = [1]) \<and>
   \<not> list_all flags_readable (scenario_responses @ [separator_response]) \<and>
   \<not> answers_readable separator_response \<and> answers_nonneg separator_response \<and>
   calculate_flag_statistics (scenario_responses @ [separator_response]) networking_questions
     = Inl ValueError \<and>
   response_answers networking_questions separator_response = Inl ValueError"
proof -
  have f: "list_all flags_readable (scenario_responses @ [stray_response])"
    by (simp add: scenario_responses_def stray_response_def flags_readable_def get_flags_def
        readable_key_def py_int_eval)
  have a: "answers_indexed stray_response"
    by (simp add: stray_response_def answers_indexed_def get_responses_def index_key_def
        py_int_eval)
  have w: "list_all well_formed networking_questions"
    by (simp add: networking_questions_def three_questions_def mk_question_def well_formed_def)
  have i: "indices_in_range (length networking_questions) (get_responses stray_response) = [1]"
    by (simp add: length_networking_questions stray_response_def get_responses_def py_int_eval)
  have k: "int_of_string [CHR 0x1C, CHR ''1''] = Inl ValueError"
    by (simp add: py_int_eval)
  have f': "\<not> list_all flags_readable (scenario_responses @ [separator_response])"
    by (simp add: separator_response_def flags_readable_def get_flags_def readable_key_def k)
  have u: "\<not> answers_readable separator_response"
    by (simp add: separator_response_def answers_readable_def get_responses_def
        readable_key_def k)
  have n: "answers_nonneg separator_response"
    by (simp add: separator_response_def answers_nonneg_def get_responses_def k)
      (simp add: py_int_eval)
  from defensive_keys [of "scenario_responses @ [stray_response]" networking_questions
      stray_response] f a w i
    defensive_keys [of "scenario_responses @ [separator_response]" networking_questions
      separator_response] f' u n
  show ?thesis by simp
qed

text \<open>
  Claim C7 as stated fails: a response whose flagged key and answer key are the string
  "abc" makes both the aggregation and the detail view raise ValueError.
\<close>

theorem malformed_key_raises:
  "calculate_flag_statistics [malformed_response] networking_questions = Inl ValueError \<and>
   response_answers networking_questions malformed_response = Inl ValueError"
  by (simp add: malformed_response_def calculate_flag_statistics_def response_answers_def
      get_flags_def get_responses_def get_student_name_def py_int_eval)

end
